theory Spec2Isabelle
  imports Main
begin

section \<open>The documentation-site configuration module \<^verbatim>\<open>docs/config.js\<close>\<close>

text \<open>
  The module has two top-level statements and nothing else:
  \<^item> line 1, \<^verbatim>\<open>const path = require('path');\<close>, which binds the imported module to a
    constant that no later line reads;
  \<^item> lines 6 to 23, \<^verbatim>\<open>module.exports = { ... };\<close>, which assigns an object literal built
    from string and array literals only.
  It defines no function. Running the module is therefore modelled as explicit state
  passing over the module's state, one function per statement.
\<close>

subsection \<open>Values\<close>

text \<open>
  The literal uses three kinds of JavaScript value: strings, arrays and objects. An object
  is kept as the list of its properties in the order the literal writes them. All the
  characters of the source's strings are ASCII, so a \<^typ>\<open>string\<close> holds them one
  \<^typ>\<open>char\<close> each.
\<close>

datatype jsvalue =
    is_JString: JString string
  | is_JArray: JArray "jsvalue list"
  | is_JObject: JObject "(string \<times> jsvalue) list"

text \<open>
  Member access \<^verbatim>\<open>v.k\<close>: the value of property \<open>k\<close>, and \<open>None\<close> for JavaScript's
  \<^verbatim>\<open>undefined\<close> (a property the object does not have, or a value that is not an
  object literal).
\<close>

fun getprop :: "jsvalue \<Rightarrow> string \<Rightarrow> jsvalue option" where
  "getprop (JObject kvs) k = map_of kvs k"
| "getprop (JString s) k = None"
| "getprop (JArray xs) k = None"

text \<open>Chained member access \<^verbatim>\<open>v.a.b\<close>.\<close>

definition getprop2 :: "jsvalue \<Rightarrow> string \<Rightarrow> string \<Rightarrow> jsvalue option" where
  "getprop2 v a b = (case getprop v a of None \<Rightarrow> None | Some c \<Rightarrow> getprop c b)"

text \<open>The property names of an object, in order (\<^verbatim>\<open>Object.keys\<close>).\<close>

fun keys :: "jsvalue \<Rightarrow> string list" where
  "keys (JObject kvs) = map fst kvs"
| "keys (JString s) = []"
| "keys (JArray xs) = []"

subsection \<open>The object literal of lines 6 to 23\<close>

text \<open>The nested \<^verbatim>\<open>config\<close> object, lines 11 to 21.\<close>

definition config_literal :: jsvalue where
  \<open>config_literal = JObject
    [ (''title'', JString ''Trame''),
      (''subtitle'', JString ''"Trame the core of your next Web Application"''),
      (''description'', JString
         ''"Trame a solution for building interactive applications using a Web front-end"''),
      (''author'', JString ''Kitware Inc.''),
      (''timezone'', JString ''UTC''),
      (''url'', JString ''https://kitware.github.io/trame''),
      (''root'', JString ''/trame/''),
      (''github'', JString ''kitware/trame''),
      (''google_analytics_4'', JString ''G-H4W9XHTJ7X'') ]\<close>

text \<open>The whole literal.\<close>

definition exports_literal :: jsvalue where
  "exports_literal = JObject
    [ (''baseUrl'', JString ''/trame''),
      (''work'', JString ''./build-tmp''),
      (''api'', JArray [JString ''../trame'']),
      (''examples'', JArray []),
      (''config'', config_literal),
      (''copy'', JArray []) ]"

subsection \<open>Running the module\<close>

text \<open>
  The state of the module while it loads: the number of statements already executed, the
  constant \<^verbatim>\<open>path\<close> (unbound before line 1 has run) and \<^verbatim>\<open>module.exports\<close>. The
  imported module is a value of an arbitrary type \<open>'m\<close>: the source never looks into it.
\<close>

record 'm module_state =
  pc :: nat
  path :: "'m option"
  module_exports :: jsvalue

text \<open>
  The state in which the loader hands the module over: nothing executed, \<^verbatim>\<open>path\<close>
  unbound, \<^verbatim>\<open>module.exports\<close> the empty object.
\<close>

definition init :: "'m module_state" where
  "init = \<lparr>pc = 0, path = None, module_exports = JObject []\<rparr>"

text \<open>Line 1. The function \<open>require\<close> is the environment's module loader.\<close>

definition stmt_require :: "(string \<Rightarrow> 'm) \<Rightarrow> 'm module_state \<Rightarrow> 'm module_state" where
  "stmt_require require s = s\<lparr>pc := 1, path := Some (require ''path'')\<rparr>"

text \<open>Lines 6 to 23.\<close>

definition stmt_exports :: "'m module_state \<Rightarrow> 'm module_state" where
  "stmt_exports s = s\<lparr>pc := 2, module_exports := exports_literal\<rparr>"

text \<open>The module body from an arbitrary state, and a load: the body from \<^const>\<open>init\<close>.\<close>

definition run :: "(string \<Rightarrow> 'm) \<Rightarrow> 'm module_state \<Rightarrow> 'm module_state" where
  "run require s = stmt_exports (stmt_require require s)"

definition load :: "(string \<Rightarrow> 'm) \<Rightarrow> 'm module_state" where
  "load require = run require init"

text \<open>
  One step of the module: the statement the counter points at, and \<open>None\<close> once both
  statements have run, since the file ends there.
\<close>

definition step :: "(string \<Rightarrow> 'm) \<Rightarrow> 'm module_state \<Rightarrow> 'm module_state option" where
  "step require s =
     (if pc s = 0 then Some (stmt_require require s)
      else if pc s = 1 then Some (stmt_exports s)
      else None)"

subsection \<open>Consumers of the record\<close>

text \<open>
  The object literal creates an ordinary object: the source calls neither
  \<^verbatim>\<open>Object.freeze\<close> nor \<^verbatim>\<open>Object.defineProperty\<close>, so each property is a writable
  data property and the object accepts new ones. The loader keeps the loaded module, and
  every later \<^verbatim>\<open>require\<close> of it returns the same \<^verbatim>\<open>module.exports\<close> object without
  running the body again. What a consumer does to the record is therefore an operation on
  the \<^verbatim>\<open>module.exports\<close> component of the loaded state:
  \<^item> \<open>Read k\<close>, the expression \<^verbatim>\<open>cfg.k\<close>;
  \<^item> \<open>Assign k v\<close>, the statement \<^verbatim>\<open>cfg.k = v\<close> for a newly built value \<open>v\<close>;
  \<^item> \<open>RequireAgain\<close>, another \<^verbatim>\<open>require\<close> of the module.
  Writes inside a nested object or array of the record are not among these operations.
\<close>

datatype consumer_op = Read string | Assign string jsvalue | RequireAgain

text \<open>
  Storing into a property list: an existing property keeps its place and takes the new
  value, a new property goes to the end.
\<close>

fun put :: "(string \<times> jsvalue) list \<Rightarrow> string \<Rightarrow> jsvalue \<Rightarrow> (string \<times> jsvalue) list" where
  "put [] k v = [(k, v)]"
| "put ((k', v') # kvs) k v = (if k' = k then (k, v) # kvs else (k', v') # put kvs k v)"

text \<open>
  The assignment \<^verbatim>\<open>obj.k = v\<close>. On an object it stores, except for the name
  \<^verbatim>\<open>__proto__\<close>, which is an accessor inherited by every object literal: assigning to it
  sets the prototype and leaves the object's own properties alone. \<^verbatim>\<open>module.exports\<close> is
  an object in every state reached here (\<open>exports_stay_object\<close> below); for completeness,
  the two other kinds of value are returned as they are.
\<close>

fun assign :: "jsvalue \<Rightarrow> string \<Rightarrow> jsvalue \<Rightarrow> jsvalue" where
  "assign (JObject kvs) k v = (if k = ''__proto__'' then JObject kvs else JObject (put kvs k v))"
| "assign (JString s) k v = JString s"
| "assign (JArray xs) k v = JArray xs"

text \<open>One operation of a consumer, and a sequence of them from left to right.\<close>

fun consume :: "consumer_op \<Rightarrow> 'm module_state \<Rightarrow> 'm module_state" where
  "consume (Read k) s = s"
| "consume (Assign k v) s = s\<lparr>module_exports := assign (module_exports s) k v\<rparr>"
| "consume RequireAgain s = s"

fun consume_all :: "consumer_op list \<Rightarrow> 'm module_state \<Rightarrow> 'm module_state" where
  "consume_all [] s = s"
| "consume_all (x # xs) s = consume_all xs (consume x s)"

text \<open>The names a sequence of operations assigns to.\<close>

fun assigned :: "consumer_op list \<Rightarrow> string list" where
  "assigned [] = []"
| "assigned (Assign k v # xs) = k # assigned xs"
| "assigned (Read k # xs) = assigned xs"
| "assigned (RequireAgain # xs) = assigned xs"

text \<open>What a read of field \<open>k\<close> of the record observes in a state.\<close>

definition observe :: "'m module_state \<Rightarrow> string \<Rightarrow> jsvalue option" where
  "observe s k = getprop (module_exports s) k"

section \<open>Properties\<close>

subsection \<open>Basic facts\<close>

lemma exports_after_load: "module_exports (load require) = exports_literal"
  by (simp add: load_def run_def stmt_exports_def)

lemma exports_after_run: "module_exports (run require s) = exports_literal"
  by (simp add: run_def stmt_exports_def)

lemma step_after_load: "step require (load require) = None"
  by (simp add: step_def load_def run_def stmt_exports_def)

lemma config_after_load: "getprop (module_exports (load require)) ''config'' = Some config_literal"
  by (simp add: exports_after_load exports_literal_def)

lemma map_of_put: "map_of (put kvs k v) = (map_of kvs)(k \<mapsto> v)"
  by (induction kvs) (auto simp: fun_eq_iff)

lemma getprop_assign_other: "k' \<noteq> k \<Longrightarrow> getprop (assign obj k v) k' = getprop obj k'"
  by (cases obj) (simp_all add: map_of_put)

lemma getprop_assign_same:
  "k \<noteq> ''__proto__'' \<Longrightarrow> getprop (assign (JObject kvs) k v) k = Some v"
  by (simp add: map_of_put)

lemma observe_consume_other:
  "k \<notin> set (assigned [x]) \<Longrightarrow> observe (consume x s) k = observe s k"
  by (cases x) (simp_all add: observe_def getprop_assign_other)

lemma observe_consume_all_other:
  "k \<notin> set (assigned xs) \<Longrightarrow> observe (consume_all xs s) k = observe s k"
proof (induction xs arbitrary: s)
  case Nil
  show ?case by simp
next
  case (Cons x xs)
  have here: "k \<notin> set (assigned [x])" and rest: "k \<notin> set (assigned xs)"
    using Cons.prems by (cases x; simp)+
  have "observe (consume_all (x # xs) s) k = observe (consume x s) k"
    using Cons.IH [OF rest] by simp
  also have "\<dots> = observe s k"
    using here by (rule observe_consume_other)
  finally show ?case .
qed

lemma assign_stays_object: "is_JObject obj \<Longrightarrow> is_JObject (assign obj k v)"
  by (cases obj) simp_all

lemma exports_stay_object:
  "is_JObject (module_exports s) \<Longrightarrow> is_JObject (module_exports (consume_all xs s))"
proof (induction xs arbitrary: s)
  case Nil
  then show ?case by simp
next
  case (Cons x xs)
  have "is_JObject (module_exports (consume x s))"
    using Cons.prems by (cases x) (simp_all add: assign_stays_object)
  then show ?case
    using Cons.IH by simp
qed

subsection \<open>The fields of the loaded record\<close>

text \<open>
  Claim C1. Whatever module loader the environment supplies, the record a load leaves in
  \<^verbatim>\<open>module.exports\<close> has the six properties of the literal, in the literal's order, each
  with the literal's value: \<^verbatim>\<open>baseUrl\<close> is \<^verbatim>\<open>'/trame'\<close>, \<^verbatim>\<open>work\<close> is
  \<^verbatim>\<open>'./build-tmp'\<close>, \<^verbatim>\<open>api\<close> is the one-element array \<^verbatim>\<open>['../trame']\<close>,
  \<^verbatim>\<open>examples\<close> and \<^verbatim>\<open>copy\<close> are empty arrays, and \<^verbatim>\<open>config\<close> holds the nine
  metadata strings, among them \<^verbatim>\<open>config.author = 'Kitware Inc.'\<close>.
\<close>

theorem load_fields_equal_literals:
  \<open>keys (module_exports (load require)) =
     [''baseUrl'', ''work'', ''api'', ''examples'', ''config'', ''copy'']
   \<and> getprop (module_exports (load require)) ''baseUrl'' = Some (JString ''/trame'')
   \<and> getprop (module_exports (load require)) ''work'' = Some (JString ''./build-tmp'')
   \<and> getprop (module_exports (load require)) ''api'' = Some (JArray [JString ''../trame''])
   \<and> getprop (module_exports (load require)) ''examples'' = Some (JArray [])
   \<and> getprop (module_exports (load require)) ''copy'' = Some (JArray [])
   \<and> getprop (module_exports (load require)) ''config'' = Some (JObject
        [ (''title'', JString ''Trame''),
          (''subtitle'', JString ''"Trame the core of your next Web Application"''),
          (''description'', JString
             ''"Trame a solution for building interactive applications using a Web front-end"''),
          (''author'', JString ''Kitware Inc.''),
          (''timezone'', JString ''UTC''),
          (''url'', JString ''https://kitware.github.io/trame''),
          (''root'', JString ''/trame/''),
          (''github'', JString ''kitware/trame''),
          (''google_analytics_4'', JString ''G-H4W9XHTJ7X'') ])
   \<and> getprop2 (module_exports (load require)) ''config'' ''author'' =
        Some (JString ''Kitware Inc.'')\<close>
  by (simp add: exports_after_load exports_literal_def config_literal_def getprop2_def)

text \<open>
  Claim C2. In the loaded record, \<^verbatim>\<open>examples\<close> and \<^verbatim>\<open>copy\<close> are both arrays of
  length zero (so every element of either is a string).
\<close>

theorem examples_and_copy_empty:
  "\<exists>xs ys. getprop (module_exports (load require)) ''examples'' = Some (JArray xs)
     \<and> getprop (module_exports (load require)) ''copy'' = Some (JArray ys)
     \<and> length xs = 0 \<and> length ys = 0
     \<and> list_all is_JString xs \<and> list_all is_JString ys"
  by (simp add: exports_after_load exports_literal_def)

text \<open>
  Claim C3. The nested \<^verbatim>\<open>config\<close> object of the loaded record has exactly nine
  properties, all with string values: \<^verbatim>\<open>title\<close>, \<^verbatim>\<open>subtitle\<close>, \<^verbatim>\<open>description\<close>,
  \<^verbatim>\<open>author\<close>, \<^verbatim>\<open>timezone\<close>, \<^verbatim>\<open>url\<close>, \<^verbatim>\<open>root\<close>, \<^verbatim>\<open>github\<close> and
  \<^verbatim>\<open>google_analytics_4\<close>. The names are pairwise different, and member access with any
  other name yields \<^verbatim>\<open>undefined\<close>.
\<close>

theorem config_has_exactly_nine_string_fields:
  "\<exists>kvs. getprop (module_exports (load require)) ''config'' = Some (JObject kvs)
     \<and> map fst kvs =
         [''title'', ''subtitle'', ''description'', ''author'', ''timezone'', ''url'', ''root'',
          ''github'', ''google_analytics_4'']
     \<and> length kvs = 9
     \<and> distinct (map fst kvs)
     \<and> list_all is_JString (map snd kvs)
     \<and> dom (getprop (JObject kvs)) =
         {''title'', ''subtitle'', ''description'', ''author'', ''timezone'', ''url'', ''root'',
          ''github'', ''google_analytics_4''}"
proof -
  have "getprop (JObject kvs) = map_of kvs" for kvs
    by (rule ext) simp
  then have d: "dom (getprop (JObject kvs)) = fst ` set kvs" for kvs
    by (simp add: dom_map_of_conv_image_fst)
  show ?thesis
    unfolding config_after_load config_literal_def
    by (simp add: d)
qed

text \<open>
  Claim C4. In the loaded record, \<^verbatim>\<open>api\<close> is an array whose every element is a string,
  namely the one-element array \<^verbatim>\<open>['../trame']\<close>, and \<^verbatim>\<open>work\<close> is the single string
  \<^verbatim>\<open>'./build-tmp'\<close>.
\<close>

theorem api_and_work_paths:
  "\<exists>xs. getprop (module_exports (load require)) ''api'' = Some (JArray xs)
     \<and> list_all is_JString xs
     \<and> xs = [JString ''../trame'']
     \<and> length xs = 1
     \<and> getprop (module_exports (load require)) ''work'' = Some (JString ''./build-tmp'')"
  by (simp add: exports_after_load exports_literal_def)

subsection \<open>The record after the load\<close>

text \<open>
  Claim C5, as stated, fails: it says that every field, observed at any point after the
  load, has the value it had at construction. The record is an unfrozen object, so after a
  consumer has run \<^verbatim>\<open>cfg.baseUrl = '/other'\<close> a read of \<^verbatim>\<open>baseUrl\<close> through a later
  \<^verbatim>\<open>require\<close> observes \<^verbatim>\<open>'/other'\<close>, not \<^verbatim>\<open>'/trame'\<close>.
\<close>

theorem assignment_by_consumer_is_observed:
  "observe (load (id :: string \<Rightarrow> string)) ''baseUrl'' = Some (JString ''/trame'')
   \<and> observe (consume_all [Assign ''baseUrl'' (JString ''/other''), RequireAgain, Read ''baseUrl'']
                (load (id :: string \<Rightarrow> string))) ''baseUrl'' = Some (JString ''/other'')
   \<and> observe (consume_all [Assign ''baseUrl'' (JString ''/other''), RequireAgain, Read ''baseUrl'']
                (load (id :: string \<Rightarrow> string))) ''baseUrl''
       \<noteq> observe (load (id :: string \<Rightarrow> string)) ''baseUrl''"
  by (simp add: observe_def exports_after_load exports_literal_def)

text \<open>
  Claim C5, amended. The module has no statement left once the record is constructed, and
  it defines no function. Under any sequence of reads, repeated \<^verbatim>\<open>require\<close>s and
  assignments to top-level properties by consumers, every field that no operation of the
  sequence assigns to is observed with the value it had at construction, which is the
  literal's; and the record stays an object.
\<close>

theorem unassigned_field_keeps_construction_value:
  "k \<notin> set (assigned xs) \<Longrightarrow>
     step require (load require) = None
     \<and> observe (consume_all xs (load require)) k = observe (load require) k
     \<and> observe (load require) k = getprop exports_literal k
     \<and> is_JObject (module_exports (consume_all xs (load require)))"
proof -
  assume k: "k \<notin> set (assigned xs)"
  have "is_JObject (module_exports (load require))"
    by (simp add: exports_after_load exports_literal_def)
  then have "is_JObject (module_exports (consume_all xs (load require)))"
    by (rule exports_stay_object)
  moreover have "observe (consume_all xs (load require)) k = observe (load require) k"
    using k by (rule observe_consume_all_other)
  moreover have "observe (load require) k = getprop exports_literal k"
    by (simp add: observe_def exports_after_load)
  ultimately show ?thesis
    by (simp add: step_after_load)
qed

theorem unassigned_field_keeps_construction_value_witness:
  "''baseUrl'' \<notin> set (assigned [Read ''baseUrl'', Assign ''work'' (JString ''/tmp''), RequireAgain])
   \<and> observe (consume_all [Read ''baseUrl'', Assign ''work'' (JString ''/tmp''), RequireAgain]
                (load (id :: string \<Rightarrow> string))) ''baseUrl'' = Some (JString ''/trame'')"
proof -
  have h: "''baseUrl'' \<notin> set (assigned [Read ''baseUrl'', Assign ''work'' (JString ''/tmp''), RequireAgain])"
    by simp
  have "getprop exports_literal ''baseUrl'' = Some (JString ''/trame'')"
    by (simp add: exports_literal_def)
  with unassigned_field_keeps_construction_value [OF h, of "id :: string \<Rightarrow> string"] h
  show ?thesis by simp
qed

subsection \<open>A load does not depend on its environment\<close>

text \<open>
  Claim C6. The record a load produces does not depend on the module loader (and so not on
  the imported \<^verbatim>\<open>path\<close> module), nor on the state the module body starts from: any two
  runs of the body, and in particular any two loads, leave the same record in
  \<^verbatim>\<open>module.exports\<close>, and that record is the literal.
\<close>

theorem load_deterministic_input_independent:
  "module_exports (run require1 s1) = module_exports (run require2 s2)
   \<and> module_exports (load require1) = module_exports (load require2)
   \<and> module_exports (load require1) = exports_literal"
  by (simp add: exports_after_load exports_after_run)

subsection \<open>Relations between the literal's strings\<close>

text \<open>
  Claim C7. In the loaded record, \<^verbatim>\<open>config.root\<close> is \<^verbatim>\<open>baseUrl\<close> followed by a slash:
  \<^verbatim>\<open>'/trame/'\<close> is \<^verbatim>\<open>'/trame'\<close> with \<^verbatim>\<open>'/'\<close> appended.
\<close>

theorem root_is_baseUrl_with_slash:
  "\<exists>b r. getprop (module_exports (load require)) ''baseUrl'' = Some (JString b)
     \<and> getprop2 (module_exports (load require)) ''config'' ''root'' = Some (JString r)
     \<and> r = b @ ''/''
     \<and> b = ''/trame'' \<and> r = ''/trame/''"
  by (simp add: exports_after_load exports_literal_def config_literal_def getprop2_def)

text \<open>
  Claim C8. In the loaded record, \<^verbatim>\<open>config.url\<close> ends with \<^verbatim>\<open>baseUrl\<close>: it is the
  prefix \<^verbatim>\<open>'https://kitware.github.io'\<close> followed by \<^verbatim>\<open>'/trame'\<close>.
\<close>

theorem url_ends_with_baseUrl:
  "\<exists>b u. getprop (module_exports (load require)) ''baseUrl'' = Some (JString b)
     \<and> getprop2 (module_exports (load require)) ''config'' ''url'' = Some (JString u)
     \<and> (\<exists>p. u = p @ b)
     \<and> u = ''https://kitware.github.io'' @ b
     \<and> b = ''/trame'' \<and> u = ''https://kitware.github.io/trame''"
  by (simp add: exports_after_load exports_literal_def config_literal_def getprop2_def)

text \<open>
  Claim C9. In the loaded record, the strings \<^verbatim>\<open>config.subtitle\<close> and
  \<^verbatim>\<open>config.description\<close> each have a double-quote character (code 0x22) as their first
  and as their last character: the quotes are characters of the value, around the text
  proper.
\<close>

theorem subtitle_description_quoted:
  "\<exists>s d. getprop2 (module_exports (load require)) ''config'' ''subtitle'' = Some (JString s)
     \<and> getprop2 (module_exports (load require)) ''config'' ''description'' = Some (JString d)
     \<and> 2 \<le> length s \<and> hd s = CHR 0x22 \<and> last s = CHR 0x22
     \<and> 2 \<le> length d \<and> hd d = CHR 0x22 \<and> last d = CHR 0x22
     \<and> s = CHR 0x22 # ''Trame the core of your next Web Application'' @ [CHR 0x22]
     \<and> d = CHR 0x22 #
         ''Trame a solution for building interactive applications using a Web front-end'' @
         [CHR 0x22]"
  by (simp add: exports_after_load exports_literal_def config_literal_def getprop2_def)

end
